theory Spec2Isabelle
  imports Complex_Main "HOL-Library.Multiset"
begin

section \<open>JavaScript numbers\<close>

text \<open>
  The gradebook computes with JavaScript numbers. The model keeps the special values the
  code branches on (not-a-number and the two infinities, with the rules of division by
  zero, of comparison with not-a-number and of truthiness) and takes arithmetic on finite
  values to be exact: rounding to 53 bits, overflow to infinity and the sign of zero are
  not modelled. A division of a finite non-zero value by zero takes the sign of the
  numerator.
\<close>

datatype jsnum = NaN | PInf | NInf | Fin real

definition isNaN :: "jsnum \<Rightarrow> bool" where
  "isNaN x = (x = NaN)"

text \<open>\<^verbatim>\<open>!!x\<close>: a number is falsy when it is zero or not-a-number.\<close>

definition truthy :: "jsnum \<Rightarrow> bool" where
  "truthy x = (x \<noteq> NaN \<and> x \<noteq> Fin 0)"

fun jneg :: "jsnum \<Rightarrow> jsnum" where
  "jneg NaN = NaN"
| "jneg PInf = NInf"
| "jneg NInf = PInf"
| "jneg (Fin a) = Fin (- a)"

fun jadd :: "jsnum \<Rightarrow> jsnum \<Rightarrow> jsnum" where
  "jadd NaN _ = NaN"
| "jadd _ NaN = NaN"
| "jadd PInf NInf = NaN"
| "jadd NInf PInf = NaN"
| "jadd PInf _ = PInf"
| "jadd _ PInf = PInf"
| "jadd NInf _ = NInf"
| "jadd _ NInf = NInf"
| "jadd (Fin a) (Fin b) = Fin (a + b)"

definition jsub :: "jsnum \<Rightarrow> jsnum \<Rightarrow> jsnum" where
  "jsub x y = jadd x (jneg y)"

text \<open>The sign of a number that is not not-a-number: \<open>-1\<close>, \<open>0\<close> or \<open>1\<close>.\<close>

fun jsign :: "jsnum \<Rightarrow> real" where
  "jsign NaN = 0"
| "jsign PInf = 1"
| "jsign NInf = - 1"
| "jsign (Fin a) = sgn a"

definition signedInf :: "real \<Rightarrow> jsnum" where
  "signedInf s = (if s = 0 then NaN else if 0 < s then PInf else NInf)"

fun jmul :: "jsnum \<Rightarrow> jsnum \<Rightarrow> jsnum" where
  "jmul NaN _ = NaN"
| "jmul _ NaN = NaN"
| "jmul (Fin a) (Fin b) = Fin (a * b)"
| "jmul x y = signedInf (jsign x * jsign y)"

fun jdiv :: "jsnum \<Rightarrow> jsnum \<Rightarrow> jsnum" where
  "jdiv NaN _ = NaN"
| "jdiv _ NaN = NaN"
| "jdiv (Fin a) (Fin b) = (if b = 0 then signedInf (sgn a) else Fin (a / b))"
| "jdiv (Fin a) _ = Fin 0"
| "jdiv x (Fin b) = signedInf (jsign x * (if b < 0 then - 1 else 1))"
| "jdiv _ _ = NaN"

text \<open>\<^verbatim>\<open>x >= y\<close> and \<^verbatim>\<open>x <= y\<close>: false as soon as one side is not-a-number.\<close>

fun jge :: "jsnum \<Rightarrow> jsnum \<Rightarrow> bool" where
  "jge NaN _ = False"
| "jge _ NaN = False"
| "jge PInf _ = True"
| "jge _ NInf = True"
| "jge NInf _ = False"
| "jge _ PInf = False"
| "jge (Fin a) (Fin b) = (b \<le> a)"

definition jle :: "jsnum \<Rightarrow> jsnum \<Rightarrow> bool" where
  "jle x y = jge y x"

text \<open>\<^verbatim>\<open>x > 0\<close>, as the comparator of \<^verbatim>\<open>Array.prototype.sort\<close> is read.\<close>

fun jpositive :: "jsnum \<Rightarrow> bool" where
  "jpositive PInf = True"
| "jpositive (Fin a) = (0 < a)"
| "jpositive _ = False"

text \<open>\<^verbatim>\<open>Math.round\<close>: the nearest integer, a tie going up.\<close>

fun mathRound :: "jsnum \<Rightarrow> jsnum" where
  "mathRound (Fin a) = Fin (of_int \<lfloor>a + 1 / 2\<rfloor>)"
| "mathRound x = x"

section \<open>The grading policy\<close>

text \<open>
  The declarations of \<^verbatim>\<open>./types\<close> are read off the fields the code uses. Identifiers
  are integers; weights, maxima and thresholds are numbers.
\<close>

record MeasureType =
  mtId :: int
  mtName :: string
  weight :: jsnum

record Boundary =
  lowScore :: jsnum
  bScore :: string

record ReportCardScoreType =
  stId :: int
  stMax :: jsnum
  details :: "Boundary list"

record GradingPolicy =
  measureTypes :: "MeasureType list"
  reportCardScoreTypes :: "ReportCardScoreType list"
  defaultReportCardScoreTypeId :: int

section \<open>Weight resolver\<close>

text \<open>
  \<^verbatim>\<open>isMCPS()\<close> of \<^verbatim>\<open>../utils\<close> is the district flag; it is a parameter \<open>mcps\<close> of
  every function that reads it.
\<close>

definition computeWeight :: "bool \<Rightarrow> MeasureType \<Rightarrow> jsnum" where
  "computeWeight mcps measureType =
     (if \<not> mcps then jdiv (weight measureType) (Fin 100)
      else if mtName measureType = ''All Tasks / Assessments'' then Fin (9 / 10)
      else if mtName measureType = ''Practice / Preparation'' then Fin (1 / 10)
      else jdiv (weight measureType) (Fin 100))"

section \<open>The store\<close>

text \<open>
  A score is a string or null; \<^verbatim>\<open>parseFloat\<close> is a parameter \<open>pf\<close> of every
  function that parses a score. The shadow courses are keyed by grading period and
  course identifier (the code joins the two with a colon, and a number's text holds
  none, so the pair is the key).
\<close>

record CustomAssignment =
  isForGrading :: bool
  score :: "string option"
  maxScore :: string
  measureTypeId :: int
  dueDate :: string
  isCustom :: "bool option"

record CustomCourse =
  assignments :: "CustomAssignment list"
  needsRollback :: bool

record CourseMetadata =
  ID :: int
  Name :: string
  markPreview :: string

record Gradebook =
  policy :: GradingPolicy
  modifiedCourses :: "string \<times> int \<rightharpoonup> CustomCourse"
  courseOrders :: "string \<rightharpoonup> CourseMetadata list"

text \<open>Reading a field of \<^verbatim>\<open>undefined\<close>, or iterating over it, throws.\<close>

datatype error = TypeError

section \<open>Assignment aggregator\<close>

definition totalAssignmentPointsBy ::
  "(CustomAssignment \<Rightarrow> jsnum) \<Rightarrow> Gradebook \<Rightarrow> string \<Rightarrow> int \<Rightarrow> int option
     \<Rightarrow> CustomAssignment list option \<Rightarrow> error + jsnum" where
  "totalAssignmentPointsBy transform gb gradingPeriod courseId categoryId assignmentsArg =
     (case (case assignmentsArg of
              Some xs \<Rightarrow> Some xs
            | None \<Rightarrow> map_option assignments (modifiedCourses gb (gradingPeriod, courseId))) of
        None \<Rightarrow> Inl TypeError
      | Some xs \<Rightarrow>
          Inr (foldl (\<lambda>acc assignment. jadd acc (transform assignment)) (Fin 0)
                 (filter (\<lambda>assignment.
                      isForGrading assignment
                      \<and> score assignment \<noteq> None
                      \<and> (case categoryId of
                            Some c \<Rightarrow> measureTypeId assignment = c
                          | None \<Rightarrow> True)) xs)))"

definition totalAssignmentPoints ::
  "(string \<Rightarrow> jsnum) \<Rightarrow> Gradebook \<Rightarrow> string \<Rightarrow> int \<Rightarrow> int option
     \<Rightarrow> CustomAssignment list option \<Rightarrow> error + jsnum" where
  "totalAssignmentPoints pf gb gradingPeriod courseId categoryId assignmentsArg =
     totalAssignmentPointsBy (\<lambda>a. case score a of Some s \<Rightarrow> pf s | None \<Rightarrow> NaN)
       gb gradingPeriod courseId categoryId assignmentsArg"

definition maxAssignmentPoints ::
  "(string \<Rightarrow> jsnum) \<Rightarrow> Gradebook \<Rightarrow> string \<Rightarrow> int \<Rightarrow> int option
     \<Rightarrow> CustomAssignment list option \<Rightarrow> error + jsnum" where
  "maxAssignmentPoints pf gb gradingPeriod courseId categoryId assignmentsArg =
     totalAssignmentPointsBy (\<lambda>a. pf (maxScore a))
       gb gradingPeriod courseId categoryId assignmentsArg"

section \<open>Ratio calculator\<close>

text \<open>\<^verbatim>\<open>Array.prototype.map\<close> with a callback that may throw: the first throw ends it.\<close>

fun mapE :: "('a \<Rightarrow> error + 'b) \<Rightarrow> 'a list \<Rightarrow> error + 'b list" where
  "mapE f [] = Inr []"
| "mapE f (x # xs) =
     (case f x of
        Inl e \<Rightarrow> Inl e
      | Inr y \<Rightarrow> (case mapE f xs of Inl e \<Rightarrow> Inl e | Inr ys \<Rightarrow> Inr (y # ys)))"

text \<open>\<^verbatim>\<open>adjustments?.[type.id] ?? [0, 0]\<close>\<close>

definition adjustmentOf :: "(int \<rightharpoonup> jsnum \<times> jsnum) option \<Rightarrow> int \<Rightarrow> jsnum \<times> jsnum" where
  "adjustmentOf adjustments i =
     (case adjustments of
        None \<Rightarrow> (Fin 0, Fin 0)
      | Some m \<Rightarrow> (case m i of None \<Rightarrow> (Fin 0, Fin 0) | Some p \<Rightarrow> p))"

definition calculateWeightedPointRatio ::
  "bool \<Rightarrow> (string \<Rightarrow> jsnum) \<Rightarrow> Gradebook \<Rightarrow> string \<Rightarrow> int
     \<Rightarrow> (int \<rightharpoonup> jsnum \<times> jsnum) option \<Rightarrow> CustomAssignment list option \<Rightarrow> error + jsnum" where
  "calculateWeightedPointRatio mcps pf gb gradingPeriod courseId adjustments assignmentsArg =
     (case mapE (\<lambda>type.
              case maxAssignmentPoints pf gb gradingPeriod courseId (Some (mtId type)) assignmentsArg of
                Inl e \<Rightarrow> Inl e
              | Inr possible \<Rightarrow>
                  Inr (mtId type, computeWeight mcps type, possible, adjustmentOf adjustments (mtId type)))
            (measureTypes (policy gb)) of
        Inl e \<Rightarrow> Inl e
      | Inr rows \<Rightarrow>
          (case mapE (\<lambda>(i, w, possible, (extraPoints, extraTotal)).
                   case totalAssignmentPoints pf gb gradingPeriod courseId (Some i) assignmentsArg of
                     Inl e \<Rightarrow> Inl e
                   | Inr earned \<Rightarrow>
                       Inr (w,
                            jmul (jdiv (jadd earned extraPoints) (jadd possible extraTotal)) w))
                 (filter (\<lambda>(_, _, possible, _). truthy possible) rows) of
             Inl e \<Rightarrow> Inl e
           | Inr pairs \<Rightarrow>
               (let (wsum, ratio) =
                      foldl (\<lambda>(a, b) (w, ratio). (jadd a w, jadd b ratio)) (Fin 0, Fin 0)
                        (filter (\<lambda>(_, ratio). \<not> isNaN ratio) pairs)
                in Inr (jdiv ratio wsum))))"

section \<open>Mark mapper\<close>

text \<open>
  \<^verbatim>\<open>details.sort((a, b) => b.lowScore - a.lowScore)\<close> sorts the array in place and is
  stable: an element goes after another only where the comparator is positive. The
  model inserts from the right end, which gives that order for thresholds that are
  numbers.
\<close>

fun insertBoundary :: "Boundary \<Rightarrow> Boundary list \<Rightarrow> Boundary list" where
  "insertBoundary a [] = [a]"
| "insertBoundary a (b # bs) =
     (if jpositive (jsub (lowScore b) (lowScore a)) then b # insertBoundary a bs
      else a # b # bs)"

definition sortDetails :: "Boundary list \<Rightarrow> Boundary list" where
  "sortDetails xs = foldr insertBoundary xs []"

text \<open>The sorted array is the one the score-type found by \<^verbatim>\<open>find\<close> holds.\<close>

fun storeDetails :: "int \<Rightarrow> Boundary list \<Rightarrow> ReportCardScoreType list \<Rightarrow> ReportCardScoreType list" where
  "storeDetails scoreType ds [] = []"
| "storeDetails scoreType ds (t # ts) =
     (if stId t = scoreType then t\<lparr>details := ds\<rparr> # ts
      else t # storeDetails scoreType ds ts)"

fun markWalk :: "jsnum \<Rightarrow> jsnum \<Rightarrow> Boundary list \<Rightarrow> string" where
  "markWalk ratio mx [] = ''N/A''"
| "markWalk ratio mx (boundary # rest) =
     (if jge ratio (jdiv (lowScore boundary) mx) then bScore boundary
      else markWalk ratio mx rest)"

definition calculateMark :: "bool \<Rightarrow> Gradebook \<Rightarrow> int \<Rightarrow> jsnum \<Rightarrow> string \<times> Gradebook" where
  "calculateMark mcps gb scoreType ratio =
     (case find (\<lambda>type. stId type = scoreType) (reportCardScoreTypes (policy gb)) of
        None \<Rightarrow> (''N/A'', gb)
      | Some p \<Rightarrow>
          if isNaN ratio \<or> stMax p = Fin (- 1) then (''N/A'', gb)
          else if mcps then
            (if jge ratio (Fin (895 / 1000)) then ''A''
             else if jge ratio (Fin (795 / 1000)) then ''B''
             else if jge ratio (Fin (695 / 1000)) then ''C''
             else if jge ratio (Fin (595 / 1000)) then ''D''
             else ''E'', gb)
          else
            (let sorted = sortDetails (details p)
             in (markWalk ratio (stMax p) sorted,
                 gb\<lparr>policy := (policy gb)\<lparr>reportCardScoreTypes :=
                       storeDetails scoreType sorted (reportCardScoreTypes (policy gb))\<rparr>\<rparr>)))"

section \<open>Style mapper\<close>

text \<open>The text of a whole number, as a template literal prints it.\<close>

definition digitChar :: "nat \<Rightarrow> char" where
  "digitChar d = ''0123456789'' ! d"

fun digitsOf :: "nat \<Rightarrow> string" where
  "digitsOf n =
     (if n < 10 then [digitChar n]
      else digitsOf (n div 10) @ [digitChar (n mod 10)])"

definition numberToString :: "int \<Rightarrow> string" where
  "numberToString i = (if i < 0 then CHR ''-'' # digitsOf (nat (- i)) else digitsOf (nat i))"

fun styleWalk :: "jsnum \<Rightarrow> jsnum \<Rightarrow> int \<Rightarrow> Boundary list \<Rightarrow> string" where
  "styleWalk ratio mx scale [] = ''fg''"
| "styleWalk ratio mx scale (boundary # rest) =
     (if jge ratio (jdiv (lowScore boundary) mx) then ''scale-'' @ numberToString scale
      else styleWalk ratio mx (max 1 (scale - 1)) rest)"

definition calculateScoreStyle :: "bool \<Rightarrow> Gradebook \<Rightarrow> int \<Rightarrow> jsnum \<Rightarrow> error + string" where
  "calculateScoreStyle mcps gb scoreType ratio =
     (case find (\<lambda>type. stId type = scoreType) (reportCardScoreTypes (policy gb)) of
        None \<Rightarrow> Inl TypeError
      | Some p \<Rightarrow>
          if stMax p = Fin (- 1) then Inr ''fg''
          else if jge ratio (Fin 1) then Inr ''scale-6''
          else if jle ratio (Fin 0) then Inr ''scale-0''
          else if mcps then
            Inr (if isNaN ratio then ''fg''
                 else if jge ratio (Fin (895 / 1000)) then ''scale-5''
                 else if jge ratio (Fin (795 / 1000)) then ''scale-4''
                 else if jge ratio (Fin (695 / 1000)) then ''scale-3''
                 else if jge ratio (Fin (595 / 1000)) then ''scale-2''
                 else ''scale-1'')
          else
            Inr (styleWalk (jdiv (mathRound (jmul ratio (Fin 10000))) (Fin 10000))
                   (stMax p) 5 (details p)))"

section \<open>GPA aggregator\<close>

definition mcpsGpaValue :: "string \<Rightarrow> bool \<Rightarrow> jsnum option" where
  "mcpsGpaValue mark weighted =
     (let extra = (if weighted then Fin 1 else Fin 0)
      in if mark = ''A'' then Some (jadd (Fin 4) extra)
         else if mark = ''B'' then Some (jadd (Fin 3) extra)
         else if mark = ''C'' then Some (jadd (Fin 2) extra)
         else if mark = ''D'' then Some (Fin 1)
         else if mark = ''E'' then Some (Fin 0)
         else None)"

fun startsWith :: "string \<Rightarrow> string \<Rightarrow> bool" where
  "startsWith s [] = True"
| "startsWith [] (c # cs) = False"
| "startsWith (d # ds) (c # cs) = (d = c \<and> startsWith ds cs)"

fun includesStr :: "string \<Rightarrow> string \<Rightarrow> bool" where
  "includesStr [] trm = (trm = [])"
| "includesStr (c # cs) trm = (startsWith (c # cs) trm \<or> includesStr cs trm)"

definition isMcpsCourseWeighted :: "string \<Rightarrow> bool" where
  "isMcpsCourseWeighted name =
     list_ex (\<lambda>trm. includesStr name trm)
       [''AP'', ''Hon'', ''Honors'', ''Adv'', ''Advanced'', ''Mag'', ''Magnet'', ''IB'']"

text \<open>\<^verbatim>\<open>/\d/.test(s)\<close>\<close>

definition hasDigit :: "string \<Rightarrow> bool" where
  "hasDigit s = list_ex (\<lambda>c. c \<in> set ''0123456789'') s"

text \<open>
  The mark of one course of the period's ordering: recomputed when the course has a
  shadow copy, else read from the preview string. \<open>calculateMark\<close> may change the
  gradebook, so the gradebook is returned with the mark.
\<close>

definition courseMark ::
  "bool \<Rightarrow> (string \<Rightarrow> jsnum) \<Rightarrow> string \<Rightarrow> CourseMetadata \<Rightarrow> Gradebook
     \<Rightarrow> error + string \<times> Gradebook" where
  "courseMark mcps pf gradingPeriod course gb =
     (let getMark = (\<lambda>ratio. calculateMark mcps gb (defaultReportCardScoreTypeId (policy gb)) ratio)
      in if modifiedCourses gb (gradingPeriod, ID course) \<noteq> None
         then (case calculateWeightedPointRatio mcps pf gb gradingPeriod (ID course) None None of
                 Inl e \<Rightarrow> Inl e
               | Inr ratio \<Rightarrow> Inr (getMark ratio))
         else if hasDigit (markPreview course) then Inr (getMark (pf (markPreview course)))
         else Inr (markPreview course, gb))"

text \<open>One round of the loop: the gradebook and the three running totals.\<close>

definition gpaCourse ::
  "bool \<Rightarrow> (string \<Rightarrow> jsnum) \<Rightarrow> string \<Rightarrow> CourseMetadata
     \<Rightarrow> Gradebook \<times> jsnum \<times> jsnum \<times> jsnum \<Rightarrow> error + Gradebook \<times> jsnum \<times> jsnum \<times> jsnum" where
  "gpaCourse mcps pf gradingPeriod course st =
     (let (gb, totalWeighted, totalUnweighted, counted) = st
      in case courseMark mcps pf gradingPeriod course gb of
           Inl e \<Rightarrow> Inl e
         | Inr (mark, gb') \<Rightarrow>
             (case mcpsGpaValue mark (isMcpsCourseWeighted (Name course)) of
                None \<Rightarrow> Inr (gb', totalWeighted, totalUnweighted, counted)
              | Some weighted \<Rightarrow>
                  Inr (gb',
                       jadd totalWeighted weighted,
                       jadd totalUnweighted
                         (case mcpsGpaValue mark False of Some u \<Rightarrow> u | None \<Rightarrow> Fin 0),
                       jadd counted (Fin 1))))"

fun gpaLoop ::
  "bool \<Rightarrow> (string \<Rightarrow> jsnum) \<Rightarrow> string \<Rightarrow> CourseMetadata list
     \<Rightarrow> Gradebook \<times> jsnum \<times> jsnum \<times> jsnum \<Rightarrow> error + Gradebook \<times> jsnum \<times> jsnum \<times> jsnum" where
  "gpaLoop mcps pf gradingPeriod [] st = Inr st"
| "gpaLoop mcps pf gradingPeriod (course # rest) st =
     (case gpaCourse mcps pf gradingPeriod course st of
        Inl e \<Rightarrow> Inl e
      | Inr st' \<Rightarrow> gpaLoop mcps pf gradingPeriod rest st')"

text \<open>The result is the pair (weighted, unweighted), with the gradebook as the call leaves it.\<close>

definition calculateMcpsGpa ::
  "bool \<Rightarrow> (string \<Rightarrow> jsnum) \<Rightarrow> Gradebook \<Rightarrow> string \<Rightarrow> error + (jsnum \<times> jsnum) \<times> Gradebook" where
  "calculateMcpsGpa mcps pf gb gradingPeriod =
     (case courseOrders gb gradingPeriod of
        None \<Rightarrow> Inl TypeError
      | Some courses \<Rightarrow>
          (case gpaLoop mcps pf gradingPeriod courses (gb, Fin 0, Fin 0, Fin 0) of
             Inl e \<Rightarrow> Inl e
           | Inr (gb', totalWeighted, totalUnweighted, counted) \<Rightarrow>
               Inr ((jdiv totalWeighted counted, jdiv totalUnweighted counted), gb')))"

section \<open>The weighted ratio, as the specification words it\<close>

text \<open>
  The specification's reading of the ratio calculator, to compare the code with: given
  each category's weight \<open>W\<close>, earned points \<open>E\<close>, possible points \<open>P\<close> and
  adjustment pair \<open>A\<close>, the contributing categories are those with possible points that
  are not zero and a weighted ratio that is a number, and the result is the sum of
  their weighted ratios over the sum of their weights.
\<close>

definition jsum :: "jsnum list \<Rightarrow> jsnum" where
  "jsum xs = foldl jadd (Fin 0) xs"

definition spec_weightedRatio ::
  "('c \<Rightarrow> jsnum) \<Rightarrow> ('c \<Rightarrow> jsnum) \<Rightarrow> ('c \<Rightarrow> jsnum) \<Rightarrow> ('c \<Rightarrow> jsnum \<times> jsnum) \<Rightarrow> 'c \<Rightarrow> jsnum" where
  "spec_weightedRatio W E P A c =
     jmul (jdiv (jadd (E c) (fst (A c))) (jadd (P c) (snd (A c)))) (W c)"

definition spec_contributing ::
  "('c \<Rightarrow> jsnum) \<Rightarrow> ('c \<Rightarrow> jsnum) \<Rightarrow> ('c \<Rightarrow> jsnum) \<Rightarrow> ('c \<Rightarrow> jsnum \<times> jsnum) \<Rightarrow> 'c list \<Rightarrow> 'c list" where
  "spec_contributing W E P A cs =
     filter (\<lambda>c. truthy (P c) \<and> \<not> isNaN (spec_weightedRatio W E P A c)) cs"

definition spec_normalizedRatio ::
  "('c \<Rightarrow> jsnum) \<Rightarrow> ('c \<Rightarrow> jsnum) \<Rightarrow> ('c \<Rightarrow> jsnum) \<Rightarrow> ('c \<Rightarrow> jsnum \<times> jsnum) \<Rightarrow> 'c list \<Rightarrow> jsnum" where
  "spec_normalizedRatio W E P A cs =
     jdiv (jsum (map (spec_weightedRatio W E P A) (spec_contributing W E P A cs)))
          (jsum (map W (spec_contributing W E P A cs)))"

section \<open>Example data\<close>

text \<open>
  A policy with two categories of weight 50 each, a score-type 7 with maximum 100 and the
  boundaries 90 / 80 / 70, and an unscored score-type 8.
\<close>

definition exampleBoundaries :: "Boundary list" where
  "exampleBoundaries =
     [\<lparr>lowScore = Fin 90, bScore = ''A''\<rparr>,
      \<lparr>lowScore = Fin 80, bScore = ''B''\<rparr>,
      \<lparr>lowScore = Fin 70, bScore = ''C''\<rparr>]"

definition examplePolicy :: GradingPolicy where
  "examplePolicy =
     \<lparr>measureTypes =
        [\<lparr>mtId = 1, mtName = ''Tests'', weight = Fin 50\<rparr>,
         \<lparr>mtId = 2, mtName = ''Homework'', weight = Fin 50\<rparr>],
      reportCardScoreTypes =
        [\<lparr>stId = 7, stMax = Fin 100, details = exampleBoundaries\<rparr>,
         \<lparr>stId = 8, stMax = Fin (- 1), details = []\<rparr>],
      defaultReportCardScoreTypeId = 7\<rparr>"

text \<open>
  An assignment of category 1 scored 8 out of 10, and one of category 2 not yet scored.
  Course 11 of period Q3 has a shadow copy holding the first; period Q3 lists it under
  the name AP Calculus, and period Q4 lists a course Biology that has no shadow copy and
  the preview mark B.
\<close>

definition gradedAssignment :: CustomAssignment where
  "gradedAssignment =
     \<lparr>isForGrading = True, score = Some ''8'', maxScore = ''10'', measureTypeId = 1,
      dueDate = ''2023-03-01'', isCustom = Some False\<rparr>"

definition ungradedAssignment :: CustomAssignment where
  "ungradedAssignment =
     \<lparr>isForGrading = True, score = None, maxScore = ''20'', measureTypeId = 2,
      dueDate = ''2023-03-02'', isCustom = Some False\<rparr>"

definition exampleGradebook :: Gradebook where
  "exampleGradebook =
     \<lparr>policy = examplePolicy,
      modifiedCourses =
        [(''Q3'', 11) \<mapsto> \<lparr>assignments = [gradedAssignment], needsRollback = False\<rparr>],
      courseOrders =
        [''Q3'' \<mapsto> [\<lparr>ID = 11, Name = ''AP Calculus'', markPreview = ''B''\<rparr>],
         ''Q4'' \<mapsto> [\<lparr>ID = 22, Name = ''Biology'', markPreview = ''B''\<rparr>]]\<rparr>"

text \<open>A \<^verbatim>\<open>parseFloat\<close> that knows the three scores of the examples.\<close>

definition exampleParse :: "string \<Rightarrow> jsnum" where
  "exampleParse s =
     (if s = ''8'' then Fin 8 else if s = ''10'' then Fin 10 else if s = ''20'' then Fin 20
      else NaN)"

text \<open>The same gradebook with the boundaries of score-type 7 listed in ascending order.\<close>

definition ascendingGradebook :: Gradebook where
  "ascendingGradebook =
     exampleGradebook\<lparr>policy := examplePolicy\<lparr>reportCardScoreTypes :=
        [\<lparr>stId = 7, stMax = Fin 100, details = rev exampleBoundaries\<rparr>]\<rparr>\<rparr>"

section \<open>Properties\<close>

subsection \<open>Lookup of a score-type\<close>

lemma find_scoreType_None:
  "(find (\<lambda>type. stId type = scoreType) ts = None) = (scoreType \<notin> stId ` set ts)"
  by (auto simp: find_None_iff)

subsection \<open>The tier counter of the style mapper\<close>

lemma numberToString_scale:
  "1 \<le> k \<Longrightarrow> k \<le> 5 \<Longrightarrow> numberToString k \<in> {''1'', ''2'', ''3'', ''4'', ''5''}"
proof -
  assume "1 \<le> k" "k \<le> 5"
  then consider "k = 1" | "k = 2" | "k = 3" | "k = 4" | "k = 5" by linarith
  then show ?thesis
    by cases (simp_all add: numberToString_def digitChar_def)
qed

text \<open>The counter starts at 5 and never goes below 1, so the walk names tiers 5 to 1 only.\<close>

lemma styleWalk_range:
  "1 \<le> scale \<Longrightarrow> scale \<le> 5 \<Longrightarrow>
   styleWalk ratio mx scale bs \<in> {''scale-5'', ''scale-4'', ''scale-3'', ''scale-2'', ''scale-1'', ''fg''}"
proof (induction bs arbitrary: scale)
  case Nil
  then show ?case by simp
next
  case (Cons b bs)
  have "numberToString scale \<in> {''1'', ''2'', ''3'', ''4'', ''5''}"
    using Cons.prems by (rule numberToString_scale)
  moreover have "styleWalk ratio mx (max 1 (scale - 1)) bs
      \<in> {''scale-5'', ''scale-4'', ''scale-3'', ''scale-2'', ''scale-1'', ''fg''}"
    using Cons.prems by (intro Cons.IH) auto
  ultimately show ?case by auto
qed

subsection \<open>Weight resolver\<close>

text \<open>
  C7, as the code does it: under the district override the two named categories yield
  exactly 0.9 and 0.1, every other category and every category outside the district
  yields the raw weight divided by 100; the result lies between 0 and 1 whenever the raw
  weight is a number between 0 and 100 (the code does not clamp).
\<close>

theorem computeWeight_cases:
  "(mcps \<and> mtName m = ''All Tasks / Assessments'' \<longrightarrow> computeWeight mcps m = Fin (9 / 10)) \<and>
   (mcps \<and> mtName m = ''Practice / Preparation'' \<longrightarrow> computeWeight mcps m = Fin (1 / 10)) \<and>
   (\<not> mcps \<or> (mtName m \<noteq> ''All Tasks / Assessments'' \<and> mtName m \<noteq> ''Practice / Preparation'')
      \<longrightarrow> computeWeight mcps m = jdiv (weight m) (Fin 100)) \<and>
   (jge (weight m) (Fin 0) \<and> jle (weight m) (Fin 100)
      \<longrightarrow> jge (computeWeight mcps m) (Fin 0) \<and> jle (computeWeight mcps m) (Fin 1))"
  by (cases "weight m") (auto simp: computeWeight_def jle_def)

theorem computeWeight_cases_witness:
  "computeWeight True \<lparr>mtId = 1, mtName = ''All Tasks / Assessments'', weight = Fin 50\<rparr> = Fin (9 / 10) \<and>
   computeWeight True \<lparr>mtId = 2, mtName = ''Practice / Preparation'', weight = Fin 50\<rparr> = Fin (1 / 10) \<and>
   computeWeight True \<lparr>mtId = 3, mtName = ''Tests'', weight = Fin 40\<rparr> = Fin (2 / 5) \<and>
   computeWeight False \<lparr>mtId = 2, mtName = ''Practice / Preparation'', weight = Fin 25\<rparr> = Fin (1 / 4) \<and>
   jge (computeWeight False \<lparr>mtId = 3, mtName = ''Tests'', weight = Fin 40\<rparr>) (Fin 0) \<and>
   jle (computeWeight False \<lparr>mtId = 3, mtName = ''Tests'', weight = Fin 40\<rparr>) (Fin 1)"
  using computeWeight_cases [of True "\<lparr>mtId = 1, mtName = ''All Tasks / Assessments'', weight = Fin 50\<rparr>"]
    computeWeight_cases [of True "\<lparr>mtId = 2, mtName = ''Practice / Preparation'', weight = Fin 50\<rparr>"]
    computeWeight_cases [of True "\<lparr>mtId = 3, mtName = ''Tests'', weight = Fin 40\<rparr>"]
    computeWeight_cases [of False "\<lparr>mtId = 2, mtName = ''Practice / Preparation'', weight = Fin 25\<rparr>"]
    computeWeight_cases [of False "\<lparr>mtId = 3, mtName = ''Tests'', weight = Fin 40\<rparr>"]
  by (simp add: jle_def)

text \<open>
  C7, as stated, fails: a category with raw weight 250 outside the district has weight
  2.5, and one with raw weight -50 has the negative weight -0.5.
\<close>

theorem computeWeight_range_counterexample:
  "\<not> jle (computeWeight False \<lparr>mtId = 1, mtName = ''Tests'', weight = Fin 250\<rparr>) (Fin 1) \<and>
   \<not> jge (computeWeight False \<lparr>mtId = 1, mtName = ''Tests'', weight = Fin (- 50)\<rparr>) (Fin 0)"
  by (simp add: computeWeight_def jle_def)

subsection \<open>Assignment aggregator\<close>

text \<open>
  C8: an assignment whose score is null counts in neither the earned-points sum nor the
  possible-points sum, whatever the grading period, course and category filter, whether
  the assignment list is passed explicitly or read from the shadow course: with the
  assignment anywhere in the list, both sums are what they are without it.
\<close>

theorem null_score_excluded:
  "score a = None \<longrightarrow>
     totalAssignmentPoints pf gb gradingPeriod courseId categoryId (Some (xs @ a # ys))
       = totalAssignmentPoints pf gb gradingPeriod courseId categoryId (Some (xs @ ys)) \<and>
     maxAssignmentPoints pf gb gradingPeriod courseId categoryId (Some (xs @ a # ys))
       = maxAssignmentPoints pf gb gradingPeriod courseId categoryId (Some (xs @ ys)) \<and>
     totalAssignmentPoints pf
         (gb\<lparr>modifiedCourses := (modifiedCourses gb)((gradingPeriod, courseId) \<mapsto>
                \<lparr>assignments = xs @ a # ys, needsRollback = r\<rparr>)\<rparr>)
         gradingPeriod courseId categoryId None
       = totalAssignmentPoints pf
         (gb\<lparr>modifiedCourses := (modifiedCourses gb)((gradingPeriod, courseId) \<mapsto>
                \<lparr>assignments = xs @ ys, needsRollback = r\<rparr>)\<rparr>)
         gradingPeriod courseId categoryId None \<and>
     maxAssignmentPoints pf
         (gb\<lparr>modifiedCourses := (modifiedCourses gb)((gradingPeriod, courseId) \<mapsto>
                \<lparr>assignments = xs @ a # ys, needsRollback = r\<rparr>)\<rparr>)
         gradingPeriod courseId categoryId None
       = maxAssignmentPoints pf
         (gb\<lparr>modifiedCourses := (modifiedCourses gb)((gradingPeriod, courseId) \<mapsto>
                \<lparr>assignments = xs @ ys, needsRollback = r\<rparr>)\<rparr>)
         gradingPeriod courseId categoryId None"
  by (simp add: totalAssignmentPoints_def maxAssignmentPoints_def totalAssignmentPointsBy_def)


theorem null_score_excluded_witness:
  "score ungradedAssignment = None \<and>
   totalAssignmentPoints exampleParse exampleGradebook ''Q3'' 11 None
       (Some ([gradedAssignment] @ ungradedAssignment # [])) = Inr (Fin 8) \<and>
   maxAssignmentPoints exampleParse exampleGradebook ''Q3'' 11 None
       (Some ([gradedAssignment] @ ungradedAssignment # [])) = Inr (Fin 10) \<and>
   maxAssignmentPoints exampleParse
       (exampleGradebook\<lparr>modifiedCourses := (modifiedCourses exampleGradebook)((''Q3'', 11) \<mapsto>
          \<lparr>assignments = [gradedAssignment] @ ungradedAssignment # [], needsRollback = False\<rparr>)\<rparr>)
       ''Q3'' 11 (Some 2) None = Inr (Fin 0)"
  using null_score_excluded [where a = ungradedAssignment and pf = exampleParse
      and gb = exampleGradebook and gradingPeriod = "''Q3''" and courseId = 11
      and categoryId = None and xs = "[gradedAssignment]" and ys = "[]" and r = False]
    null_score_excluded [where a = ungradedAssignment and pf = exampleParse
      and gb = exampleGradebook and gradingPeriod = "''Q3''" and courseId = 11
      and categoryId = "Some 2" and xs = "[gradedAssignment]" and ys = "[]" and r = False]
  by (simp add: exampleGradebook_def gradedAssignment_def ungradedAssignment_def
      exampleParse_def totalAssignmentPoints_def maxAssignmentPoints_def
      totalAssignmentPointsBy_def)

subsection \<open>Style mapper\<close>

text \<open>
  C5: for a score-type id absent from the policy's report-card score-types,
  \<open>calculateScoreStyle\<close> reads a field of an absent entry and throws; for an id that is
  present, the lookup and the read cannot fail and a tier label is returned.
\<close>

theorem calculateScoreStyle_lookup:
  "(scoreType \<notin> stId ` set (reportCardScoreTypes (policy gb))
      \<longrightarrow> calculateScoreStyle mcps gb scoreType ratio = Inl TypeError) \<and>
   (scoreType \<in> stId ` set (reportCardScoreTypes (policy gb))
      \<longrightarrow> (\<exists>label. calculateScoreStyle mcps gb scoreType ratio = Inr label))"
proof (cases "find (\<lambda>type. stId type = scoreType) (reportCardScoreTypes (policy gb))")
  case None
  then have absent: "scoreType \<notin> stId ` set (reportCardScoreTypes (policy gb))"
    by (simp add: find_scoreType_None)
  have "calculateScoreStyle mcps gb scoreType ratio = Inl TypeError"
    using None by (simp add: calculateScoreStyle_def)
  with absent show ?thesis by simp
next
  case (Some p)
  then have present: "scoreType \<in> stId ` set (reportCardScoreTypes (policy gb))"
    using find_scoreType_None [of scoreType "reportCardScoreTypes (policy gb)"] by auto
  have "\<exists>label. calculateScoreStyle mcps gb scoreType ratio = Inr label"
    using Some by (simp add: calculateScoreStyle_def)
  with present show ?thesis by simp
qed


theorem calculateScoreStyle_lookup_witness:
  "9 \<notin> stId ` set (reportCardScoreTypes (policy exampleGradebook)) \<and>
   calculateScoreStyle False exampleGradebook 9 (Fin (1 / 2)) = Inl TypeError \<and>
   7 \<in> stId ` set (reportCardScoreTypes (policy exampleGradebook)) \<and>
   (\<exists>label. calculateScoreStyle False exampleGradebook 7 (Fin (1 / 2)) = Inr label)"
  using calculateScoreStyle_lookup [where scoreType = 9 and gb = exampleGradebook
      and mcps = False and ratio = "Fin (1 / 2)"]
    calculateScoreStyle_lookup [where scoreType = 7 and gb = exampleGradebook
      and mcps = False and ratio = "Fin (1 / 2)"]
  by (simp add: exampleGradebook_def examplePolicy_def)

text \<open>
  C9, as the code does it: for a score-type that is present in the policy and whose
  maximum is not the unscored sentinel -1, \<open>calculateScoreStyle\<close> at ratio exactly 1.0
  returns the top tier \<open>scale-6\<close> and at ratio exactly 0.0 the bottom tier \<open>scale-0\<close>,
  whatever the boundaries and the district flag.
\<close>

theorem calculateScoreStyle_extremes:
  "find (\<lambda>type. stId type = scoreType) (reportCardScoreTypes (policy gb)) = Some p
     \<and> stMax p \<noteq> Fin (- 1)
   \<longrightarrow> calculateScoreStyle mcps gb scoreType (Fin 1) = Inr ''scale-6''
     \<and> calculateScoreStyle mcps gb scoreType (Fin 0) = Inr ''scale-0''"
  by (simp add: calculateScoreStyle_def jle_def)


theorem calculateScoreStyle_extremes_witness:
  "find (\<lambda>type. stId type = 7) (reportCardScoreTypes (policy exampleGradebook))
     = Some \<lparr>stId = 7, stMax = Fin 100, details = exampleBoundaries\<rparr> \<and>
   Fin 100 \<noteq> Fin (- 1) \<and>
   calculateScoreStyle False exampleGradebook 7 (Fin 1) = Inr ''scale-6'' \<and>
   calculateScoreStyle False exampleGradebook 7 (Fin 0) = Inr ''scale-0''"
  using calculateScoreStyle_extremes [where scoreType = 7 and gb = exampleGradebook
      and mcps = False and p = "\<lparr>stId = 7, stMax = Fin 100, details = exampleBoundaries\<rparr>"]
  by (simp add: exampleGradebook_def examplePolicy_def)


text \<open>
  C9, as stated for every score-type id, fails: the unscored score-type 8 yields \<open>fg\<close>
  at ratio 1.0 and at ratio 0.0 (the sentinel is tested first), and the absent id 9
  throws.
\<close>

theorem calculateScoreStyle_unscored_counterexample:
  "calculateScoreStyle False exampleGradebook 8 (Fin 1) = Inr ''fg'' \<and>
   calculateScoreStyle False exampleGradebook 8 (Fin 1) \<noteq> Inr ''scale-6'' \<and>
   calculateScoreStyle False exampleGradebook 8 (Fin 0) = Inr ''fg'' \<and>
   calculateScoreStyle False exampleGradebook 8 (Fin 0) \<noteq> Inr ''scale-0'' \<and>
   calculateScoreStyle False exampleGradebook 9 (Fin 1) = Inl TypeError"
  by (simp add: calculateScoreStyle_def exampleGradebook_def examplePolicy_def)

text \<open>
  C10: for a score-type whose maximum is not the unscored sentinel and a ratio strictly
  between 0 and 1, \<open>calculateScoreStyle\<close> returns one of \<open>scale-5\<close> to \<open>scale-1\<close> or
  \<open>fg\<close>, in the district branch and in the generic boundary walk alike; it never
  returns \<open>scale-6\<close> or \<open>scale-0\<close>.
\<close>

theorem calculateScoreStyle_interior:
  assumes "find (\<lambda>type. stId type = scoreType) (reportCardScoreTypes (policy gb)) = Some p"
    and "stMax p \<noteq> Fin (- 1)" and "0 < r" and "r < 1"
  shows "\<exists>s. calculateScoreStyle mcps gb scoreType (Fin r) = Inr s
           \<and> s \<in> {''scale-5'', ''scale-4'', ''scale-3'', ''scale-2'', ''scale-1'', ''fg''}
           \<and> s \<noteq> ''scale-6'' \<and> s \<noteq> ''scale-0''"
proof (cases mcps)
  case True
  with assms show ?thesis
    by (simp add: calculateScoreStyle_def jle_def isNaN_def)
next
  case False
  let ?s = "styleWalk (jdiv (mathRound (jmul (Fin r) (Fin 10000))) (Fin 10000)) (stMax p) 5 (details p)"
  have run: "calculateScoreStyle mcps gb scoreType (Fin r) = Inr ?s"
    using assms False by (simp add: calculateScoreStyle_def jle_def)
  have "?s \<in> {''scale-5'', ''scale-4'', ''scale-3'', ''scale-2'', ''scale-1'', ''fg''}"
    by (rule styleWalk_range) simp_all
  then have "?s \<in> {''scale-5'', ''scale-4'', ''scale-3'', ''scale-2'', ''scale-1'', ''fg''}
      \<and> ?s \<noteq> ''scale-6'' \<and> ?s \<noteq> ''scale-0''"
    by auto
  with run show ?thesis by blast
qed

theorem calculateScoreStyle_interior_witness:
  "find (\<lambda>type. stId type = 7) (reportCardScoreTypes (policy exampleGradebook))
     = Some \<lparr>stId = 7, stMax = Fin 100, details = exampleBoundaries\<rparr> \<and>
   Fin 100 \<noteq> Fin (- 1) \<and> (0::real) < 3 / 4 \<and> (3 / 4 :: real) < 1 \<and>
   calculateScoreStyle False exampleGradebook 7 (Fin (3 / 4)) = Inr ''scale-3'' \<and>
   calculateScoreStyle True exampleGradebook 7 (Fin (3 / 4)) = Inr ''scale-3''"
  using calculateScoreStyle_interior [where scoreType = 7 and gb = exampleGradebook
      and p = "\<lparr>stId = 7, stMax = Fin 100, details = exampleBoundaries\<rparr>"
      and r = "3 / 4" and mcps = False]
    calculateScoreStyle_interior [where scoreType = 7 and gb = exampleGradebook
      and p = "\<lparr>stId = 7, stMax = Fin 100, details = exampleBoundaries\<rparr>"
      and r = "3 / 4" and mcps = True]
  by (simp add: calculateScoreStyle_def exampleGradebook_def examplePolicy_def
      exampleBoundaries_def jle_def isNaN_def numberToString_def digitChar_def)

subsection \<open>Mark mapper\<close>

text \<open>
  C6: \<open>calculateMark\<close> returns \<open>N/A\<close> whenever the score-type id is not found in the
  policy, or the ratio is not-a-number, or the score-type found has the unscored
  sentinel -1 as its maximum.
\<close>

theorem calculateMark_NA:
  "(scoreType \<notin> stId ` set (reportCardScoreTypes (policy gb))
      \<longrightarrow> fst (calculateMark mcps gb scoreType ratio) = ''N/A'') \<and>
   (isNaN ratio \<longrightarrow> fst (calculateMark mcps gb scoreType ratio) = ''N/A'') \<and>
   (find (\<lambda>type. stId type = scoreType) (reportCardScoreTypes (policy gb)) = Some p
      \<and> stMax p = Fin (- 1)
      \<longrightarrow> fst (calculateMark mcps gb scoreType ratio) = ''N/A'')"
  by (auto simp: calculateMark_def find_scoreType_None [symmetric] split: option.splits)


theorem calculateMark_NA_witness:
  "9 \<notin> stId ` set (reportCardScoreTypes (policy exampleGradebook)) \<and>
   fst (calculateMark False exampleGradebook 9 (Fin (19 / 20))) = ''N/A'' \<and>
   isNaN NaN \<and> fst (calculateMark True exampleGradebook 7 NaN) = ''N/A'' \<and>
   fst (calculateMark False exampleGradebook 7 NaN) = ''N/A'' \<and>
   find (\<lambda>type. stId type = 8) (reportCardScoreTypes (policy exampleGradebook))
     = Some \<lparr>stId = 8, stMax = Fin (- 1), details = []\<rparr> \<and>
   fst (calculateMark False exampleGradebook 8 (Fin (19 / 20))) = ''N/A''"
  using calculateMark_NA [where scoreType = 9 and gb = exampleGradebook and mcps = False
      and ratio = "Fin (19 / 20)"]
    calculateMark_NA [where scoreType = 7 and gb = exampleGradebook and mcps = True
      and ratio = NaN]
    calculateMark_NA [where scoreType = 7 and gb = exampleGradebook and mcps = False
      and ratio = NaN]
    calculateMark_NA [where scoreType = 8 and gb = exampleGradebook and mcps = False
      and ratio = "Fin (19 / 20)" and p = "\<lparr>stId = 8, stMax = Fin (- 1), details = []\<rparr>"]
  by (simp add: exampleGradebook_def examplePolicy_def isNaN_def)

subsection \<open>Mark mapper: the generic boundary walk\<close>

text \<open>The comparator \<open>b.lowScore - a.lowScore\<close> on thresholds that are numbers.\<close>

lemma jpositive_jsub:
  "x \<noteq> NaN \<Longrightarrow> y \<noteq> NaN \<Longrightarrow> jpositive (jsub y x) = (\<not> jge x y)"
  by (cases x; cases y) (auto simp: jsub_def)

lemma jge_trans: "jge x y \<Longrightarrow> jge y z \<Longrightarrow> jge x z"
  by (cases x; cases y; cases z) auto

lemma jge_total: "x \<noteq> NaN \<Longrightarrow> y \<noteq> NaN \<Longrightarrow> jge x y \<or> jge y x"
  by (cases x; cases y) auto

lemma mset_insertBoundary: "mset (insertBoundary a bs) = add_mset a (mset bs)"
  by (induction bs) auto

lemma mset_sortDetails: "mset (sortDetails xs) = mset xs"
  by (induction xs) (auto simp: sortDetails_def mset_insertBoundary)

lemma set_insertBoundary: "set (insertBoundary a bs) = insert a (set bs)"
  using mset_insertBoundary [of a bs] by (metis set_mset_add_mset_insert set_mset_mset)

lemma set_sortDetails: "set (sortDetails xs) = set xs"
  using mset_sortDetails [of xs] by (metis set_mset_mset)

lemma sorted_insertBoundary:
  assumes "lowScore a \<noteq> NaN" and "\<forall>b\<in>set bs. lowScore b \<noteq> NaN"
    and "sorted_wrt (\<lambda>a b. jge (lowScore a) (lowScore b)) bs"
  shows "sorted_wrt (\<lambda>a b. jge (lowScore a) (lowScore b)) (insertBoundary a bs)"
  using assms
proof (induction bs)
  case Nil
  then show ?case by simp
next
  case (Cons b bs)
  show ?case
  proof (cases "jge (lowScore a) (lowScore b)")
    case True
    then have "\<forall>c\<in>set bs. jge (lowScore a) (lowScore c)"
      using Cons.prems(3) by (auto intro: jge_trans)
    with True Cons.prems show ?thesis
      by (simp add: jpositive_jsub)
  next
    case False
    then have "jge (lowScore b) (lowScore a)"
      using jge_total [of "lowScore a" "lowScore b"] Cons.prems by auto
    moreover have "sorted_wrt (\<lambda>a b. jge (lowScore a) (lowScore b)) (insertBoundary a bs)"
      using Cons by simp
    ultimately show ?thesis
      using False Cons.prems by (auto simp: jpositive_jsub set_insertBoundary)
  qed
qed

lemma sorted_sortDetails:
  "\<forall>b\<in>set xs. lowScore b \<noteq> NaN \<Longrightarrow>
   sorted_wrt (\<lambda>a b. jge (lowScore a) (lowScore b)) (sortDetails xs)"
proof (induction xs)
  case Nil
  then show ?case by (simp add: sortDetails_def)
next
  case (Cons x xs)
  have "sorted_wrt (\<lambda>a b. jge (lowScore a) (lowScore b)) (insertBoundary x (sortDetails xs))"
    using Cons by (intro sorted_insertBoundary) (auto simp: set_sortDetails)
  then show ?case by (simp add: sortDetails_def)
qed

lemma markWalk_find:
  "markWalk ratio mx bs =
     (case find (\<lambda>b. jle (jdiv (lowScore b) mx) ratio) bs of
        None \<Rightarrow> ''N/A'' | Some b \<Rightarrow> bScore b)"
  by (induction bs) (auto simp: jle_def)

text \<open>
  C4: in the generic branch, for a score-type whose maximum is not the unscored sentinel
  and a ratio that is a number, \<open>calculateMark\<close> returns the label of the first boundary,
  in the sorted order, whose threshold over the maximum is at most the ratio, and
  \<open>N/A\<close> when there is none. The sorted order holds the same boundaries and, for
  thresholds that are numbers, is descending. With the boundaries 90 / 80 / 70 and
  maximum 100, ratio 0.85 yields B, 0.95 yields A and 0.5 yields \<open>N/A\<close>.
\<close>

theorem calculateMark_generic:
  "(find (\<lambda>type. stId type = scoreType) (reportCardScoreTypes (policy gb)) = Some p
      \<and> stMax p \<noteq> Fin (- 1) \<and> \<not> isNaN ratio
    \<longrightarrow> fst (calculateMark False gb scoreType ratio)
          = (case find (\<lambda>b. jle (jdiv (lowScore b) (stMax p)) ratio) (sortDetails (details p)) of
               None \<Rightarrow> ''N/A'' | Some b \<Rightarrow> bScore b)
        \<and> mset (sortDetails (details p)) = mset (details p)
        \<and> ((\<forall>b\<in>set (details p). \<not> isNaN (lowScore b))
             \<longrightarrow> sorted_wrt (\<lambda>a b. jge (lowScore a) (lowScore b)) (sortDetails (details p)))) \<and>
   fst (calculateMark False exampleGradebook 7 (Fin (85 / 100))) = ''B'' \<and>
   fst (calculateMark False exampleGradebook 7 (Fin (95 / 100))) = ''A'' \<and>
   fst (calculateMark False exampleGradebook 7 (Fin (5 / 10))) = ''N/A''"
proof -
  have walk: "fst (calculateMark False gb scoreType ratio)
      = (case find (\<lambda>b. jle (jdiv (lowScore b) (stMax p)) ratio) (sortDetails (details p)) of
           None \<Rightarrow> ''N/A'' | Some b \<Rightarrow> bScore b)"
    if "find (\<lambda>type. stId type = scoreType) (reportCardScoreTypes (policy gb)) = Some p"
      and "stMax p \<noteq> Fin (- 1)" and "\<not> isNaN ratio"
    using that by (simp add: calculateMark_def Let_def markWalk_find)
  have srt: "sorted_wrt (\<lambda>a b. jge (lowScore a) (lowScore b)) (sortDetails (details p))"
    if "\<forall>b\<in>set (details p). \<not> isNaN (lowScore b)"
    using that by (intro sorted_sortDetails) (simp add: isNaN_def)
  have ex: "fst (calculateMark False exampleGradebook 7 (Fin (85 / 100))) = ''B''"
    "fst (calculateMark False exampleGradebook 7 (Fin (95 / 100))) = ''A''"
    "fst (calculateMark False exampleGradebook 7 (Fin (5 / 10))) = ''N/A''"
    by (simp_all add: calculateMark_def exampleGradebook_def examplePolicy_def
        exampleBoundaries_def isNaN_def sortDetails_def jsub_def)
  from walk srt ex show ?thesis
    by (simp add: mset_sortDetails)
qed

theorem calculateMark_generic_witness:
  "find (\<lambda>type. stId type = 7) (reportCardScoreTypes (policy ascendingGradebook))
     = Some \<lparr>stId = 7, stMax = Fin 100, details = rev exampleBoundaries\<rparr> \<and>
   Fin 100 \<noteq> Fin (- 1) \<and> \<not> isNaN (Fin (85 / 100)) \<and>
   sortDetails (rev exampleBoundaries) = exampleBoundaries \<and>
   find (\<lambda>b. jle (jdiv (lowScore b) (Fin 100)) (Fin (85 / 100))) exampleBoundaries
     = Some \<lparr>lowScore = Fin 80, bScore = ''B''\<rparr> \<and>
   fst (calculateMark False ascendingGradebook 7 (Fin (85 / 100))) = ''B'' \<and>
   sorted_wrt (\<lambda>a b. jge (lowScore a) (lowScore b)) (sortDetails (rev exampleBoundaries))"
  using calculateMark_generic [where scoreType = 7 and gb = ascendingGradebook
      and p = "\<lparr>stId = 7, stMax = Fin 100, details = rev exampleBoundaries\<rparr>"
      and ratio = "Fin (85 / 100)"]
  by (simp add: ascendingGradebook_def exampleGradebook_def examplePolicy_def
      exampleBoundaries_def isNaN_def sortDetails_def jsub_def jle_def)

subsection \<open>Ratio calculator\<close>

lemma mapE_Inr: "\<forall>x\<in>set xs. f x = Inr (g x) \<Longrightarrow> mapE f xs = Inr (map g xs)"
  by (induction xs) auto

lemma mapE_map: "mapE f (map g xs) = mapE (\<lambda>x. f (g x)) xs"
  by (induction xs) (auto split: sum.splits)

lemma foldl_pairs:
  "foldl (\<lambda>(a, b) (w, r). (jadd a w, jadd b r)) (a0, b0) ps
     = (foldl jadd a0 (map fst ps), foldl jadd b0 (map snd ps))"
  by (induction ps arbitrary: a0 b0) auto

lemma ratio_formula:
  assumes "\<forall>t\<in>set (measureTypes (policy gb)).
      maxAssignmentPoints pf gb gp cid (Some (mtId t)) asgs = Inr (P t)
      \<and> totalAssignmentPoints pf gb gp cid (Some (mtId t)) asgs = Inr (E t)"
  shows "calculateWeightedPointRatio mcps pf gb gp cid adj asgs
     = Inr (spec_normalizedRatio (computeWeight mcps) E P (\<lambda>t. adjustmentOf adj (mtId t))
              (measureTypes (policy gb)))"
proof -
  let ?ts = "measureTypes (policy gb)"
  let ?A = "\<lambda>t. adjustmentOf adj (mtId t)"
  let ?W = "computeWeight mcps"
  let ?row = "\<lambda>t. (mtId t, ?W t, P t, ?A t)"
  let ?keep = "filter (\<lambda>t. truthy (P t)) ?ts"
  let ?pair = "\<lambda>t. (?W t, spec_weightedRatio ?W E P ?A t)"
  let ?C = "spec_contributing ?W E P ?A ?ts"
  have rows: "mapE (\<lambda>type.
        case maxAssignmentPoints pf gb gp cid (Some (mtId type)) asgs of
          Inl e \<Rightarrow> Inl e
        | Inr possible \<Rightarrow> Inr (mtId type, ?W type, possible, adjustmentOf adj (mtId type))) ?ts
      = Inr (map ?row ?ts)"
    using assms by (intro mapE_Inr) simp
  have kept: "filter (\<lambda>(_, _, possible, _). truthy possible) (map ?row ?ts) = map ?row ?keep"
    by (simp add: filter_map comp_def)
  have pairs: "mapE (\<lambda>(i, w, possible, (extraPoints, extraTotal)).
        case totalAssignmentPoints pf gb gp cid (Some i) asgs of
          Inl e \<Rightarrow> Inl e
        | Inr earned \<Rightarrow>
            Inr (w, jmul (jdiv (jadd earned extraPoints) (jadd possible extraTotal)) w))
        (map ?row ?keep)
      = Inr (map ?pair ?keep)"
    unfolding mapE_map using assms
    by (intro mapE_Inr) (simp add: spec_weightedRatio_def case_prod_beta)
  have survivors: "filter (\<lambda>(_, ratio). \<not> isNaN ratio) (map ?pair ?keep) = map ?pair ?C"
    by (simp add: filter_map comp_def spec_contributing_def)
  have sums: "foldl (\<lambda>(a, b) (w, ratio). (jadd a w, jadd b ratio)) (Fin 0, Fin 0) (map ?pair ?C)
      = (jsum (map ?W ?C), jsum (map (spec_weightedRatio ?W E P ?A) ?C))"
    by (simp add: foldl_pairs jsum_def comp_def)
  show ?thesis
    by (simp only: calculateWeightedPointRatio_def rows sum.case kept pairs survivors sums
        Let_def prod.case spec_normalizedRatio_def)
qed

lemma aggregator_policy:
  "maxAssignmentPoints pf (gb\<lparr>policy := q\<rparr>) gp cid cat asgs
     = maxAssignmentPoints pf gb gp cid cat asgs"
  "totalAssignmentPoints pf (gb\<lparr>policy := q\<rparr>) gp cid cat asgs
     = totalAssignmentPoints pf gb gp cid cat asgs"
  by (cases asgs; simp add: maxAssignmentPoints_def totalAssignmentPoints_def
      totalAssignmentPointsBy_def)+

lemma aggregator_resolved:
  assumes "maxAssignmentPoints pf gb gp cid cat asgs = Inr z"
  shows "\<exists>P E. \<forall>c. maxAssignmentPoints pf gb gp cid (Some c) asgs = Inr (P c)
                  \<and> totalAssignmentPoints pf gb gp cid (Some c) asgs = Inr (E c)"
proof -
  have "\<forall>c. \<exists>p e. maxAssignmentPoints pf gb gp cid (Some c) asgs = Inr p
                  \<and> totalAssignmentPoints pf gb gp cid (Some c) asgs = Inr e"
    using assms
    by (auto simp: maxAssignmentPoints_def totalAssignmentPoints_def totalAssignmentPointsBy_def
        split: option.splits)
  then show ?thesis by metis
qed

lemma spec_contributing_drop:
  "\<not> truthy (P t) \<Longrightarrow>
   spec_contributing W E P A (xs @ t # ys) = spec_contributing W E P A (xs @ ys)"
  by (simp add: spec_contributing_def)

lemma ratio_excludes:
  assumes "maxAssignmentPoints pf gb gp cid (Some (mtId t)) asgs = Inr (Fin 0)"
  shows "calculateWeightedPointRatio mcps pf
           (gb\<lparr>policy := (policy gb)\<lparr>measureTypes := xs @ t # ys\<rparr>\<rparr>) gp cid adj asgs
       = calculateWeightedPointRatio mcps pf
           (gb\<lparr>policy := (policy gb)\<lparr>measureTypes := xs @ ys\<rparr>\<rparr>) gp cid adj asgs"
proof -
  obtain P E where PE: "\<And>c. maxAssignmentPoints pf gb gp cid (Some c) asgs = Inr (P c)"
      "\<And>c. totalAssignmentPoints pf gb gp cid (Some c) asgs = Inr (E c)"
    using aggregator_resolved [OF assms] by blast
  let ?P = "\<lambda>u. P (mtId u)" and ?E = "\<lambda>u. E (mtId u)"
  have zero: "\<not> truthy (?P t)"
    using assms PE(1) [of "mtId t"] by (simp add: truthy_def)
  have "calculateWeightedPointRatio mcps pf
          (gb\<lparr>policy := (policy gb)\<lparr>measureTypes := ts\<rparr>\<rparr>) gp cid adj asgs
      = Inr (spec_normalizedRatio (computeWeight mcps) ?E ?P (\<lambda>t. adjustmentOf adj (mtId t)) ts)"
    for ts
    using ratio_formula [where gb = "gb\<lparr>policy := (policy gb)\<lparr>measureTypes := ts\<rparr>\<rparr>"
        and pf = pf and gp = gp and cid = cid and asgs = asgs and P = ?P and E = ?E
        and mcps = mcps and adj = adj]
    by (simp add: aggregator_policy PE)
  then show ?thesis
    using spec_contributing_drop [where P = ?P and t = t, OF zero]
    by (simp add: spec_normalizedRatio_def)
qed

text \<open>
  C1: a category whose possible points (over the filtered assignments) are zero is
  excluded: with such a category anywhere in the policy the result is what it is
  without it. The result is the sum of the weighted ratios of the contributing
  categories divided by the sum of their weights. With category 1 of weight 0.5 and
  8 / 10, and category 2 of weight 0.5 and no graded work, the result is 0.8 and not 0.4.
\<close>

theorem weighted_ratio_normalized:
  "(maxAssignmentPoints pf gb gp cid (Some (mtId t)) asgs = Inr (Fin 0)
      \<longrightarrow> calculateWeightedPointRatio mcps pf
            (gb\<lparr>policy := (policy gb)\<lparr>measureTypes := xs @ t # ys\<rparr>\<rparr>) gp cid adj asgs
          = calculateWeightedPointRatio mcps pf
            (gb\<lparr>policy := (policy gb)\<lparr>measureTypes := xs @ ys\<rparr>\<rparr>) gp cid adj asgs) \<and>
   ((\<forall>c\<in>set (measureTypes (policy gb)).
        maxAssignmentPoints pf gb gp cid (Some (mtId c)) asgs = Inr (P c)
        \<and> totalAssignmentPoints pf gb gp cid (Some (mtId c)) asgs = Inr (E c))
      \<longrightarrow> calculateWeightedPointRatio mcps pf gb gp cid adj asgs
          = Inr (spec_normalizedRatio (computeWeight mcps) E P (\<lambda>c. adjustmentOf adj (mtId c))
                   (measureTypes (policy gb)))) \<and>
   (pf ''8'' = Fin 8 \<and> pf ''10'' = Fin 10
      \<longrightarrow> calculateWeightedPointRatio False pf exampleGradebook ''Q3'' 11 None None
            = Inr (Fin (8 / 10))
        \<and> calculateWeightedPointRatio False pf exampleGradebook ''Q3'' 11 None None
            \<noteq> Inr (Fin (4 / 10)))"
proof -
  have example: "calculateWeightedPointRatio False pf exampleGradebook ''Q3'' 11 None None
        = Inr (Fin (8 / 10))
      \<and> calculateWeightedPointRatio False pf exampleGradebook ''Q3'' 11 None None
        \<noteq> Inr (Fin (4 / 10))" if "pf ''8'' = Fin 8" and "pf ''10'' = Fin 10"
    using that
    by (simp add: calculateWeightedPointRatio_def exampleGradebook_def examplePolicy_def
        gradedAssignment_def maxAssignmentPoints_def totalAssignmentPoints_def
        totalAssignmentPointsBy_def computeWeight_def adjustmentOf_def truthy_def isNaN_def)
  show ?thesis
    using ratio_excludes [of pf gb gp cid t asgs mcps xs ys adj]
      ratio_formula [of gb pf gp cid asgs P E mcps adj] example
    by blast
qed


theorem weighted_ratio_normalized_witness:
  "maxAssignmentPoints exampleParse exampleGradebook ''Q3'' 11 (Some 2) None = Inr (Fin 0) \<and>
   calculateWeightedPointRatio False exampleParse
       (exampleGradebook\<lparr>policy := (policy exampleGradebook)\<lparr>measureTypes :=
          [\<lparr>mtId = 1, mtName = ''Tests'', weight = Fin 50\<rparr>]
          @ \<lparr>mtId = 2, mtName = ''Homework'', weight = Fin 50\<rparr> # []\<rparr>\<rparr>) ''Q3'' 11 None None
     = Inr (Fin (8 / 10)) \<and>
   calculateWeightedPointRatio False exampleParse
       (exampleGradebook\<lparr>policy := (policy exampleGradebook)\<lparr>measureTypes :=
          [\<lparr>mtId = 1, mtName = ''Tests'', weight = Fin 50\<rparr>] @ []\<rparr>\<rparr>) ''Q3'' 11 None None
     = Inr (Fin (8 / 10)) \<and>
   spec_normalizedRatio (computeWeight False)
       (\<lambda>c. if mtId c = 1 then Fin 8 else Fin 0) (\<lambda>c. if mtId c = 1 then Fin 10 else Fin 0)
       (\<lambda>c. adjustmentOf None (mtId c)) (measureTypes (policy exampleGradebook))
     = Fin (8 / 10) \<and>
   exampleParse ''8'' = Fin 8 \<and> exampleParse ''10'' = Fin 10 \<and>
   calculateWeightedPointRatio False exampleParse exampleGradebook ''Q3'' 11 None None
     = Inr (Fin (8 / 10))"
  using weighted_ratio_normalized [where pf = exampleParse and gb = exampleGradebook
      and gp = "''Q3''" and cid = 11 and asgs = None and mcps = False and adj = None
      and t = "\<lparr>mtId = 2, mtName = ''Homework'', weight = Fin 50\<rparr>"
      and xs = "[\<lparr>mtId = 1, mtName = ''Tests'', weight = Fin 50\<rparr>]" and ys = "[]"
      and P = "\<lambda>c. if mtId c = 1 then Fin 10 else Fin 0"
      and E = "\<lambda>c. if mtId c = 1 then Fin 8 else Fin 0"]
  by (simp add: exampleGradebook_def examplePolicy_def gradedAssignment_def exampleParse_def
      maxAssignmentPoints_def totalAssignmentPoints_def totalAssignmentPointsBy_def
      calculateWeightedPointRatio_def computeWeight_def adjustmentOf_def truthy_def isNaN_def
      spec_normalizedRatio_def spec_contributing_def spec_weightedRatio_def jsum_def)

subsection \<open>GPA aggregator\<close>

text \<open>
  C2, as the code does it: the marks A, B, C, D, E are worth 4, 3, 2, 1, 0 points, and a
  weighted course adds 1 to an A, a B or a C only (a weighted A is 5); a D is worth 1 and
  an E is worth 0 whether the course is weighted or not. A course whose mark is counted
  adds its weighted value, its unweighted value and 1 to the three running totals. The
  course named AP Calculus is weighted and the course named Biology is not: with mark B
  the first contributes weighted 4 and unweighted 3, the second 3 and 3.
\<close>

theorem mcpsGpaValue_points:
  "mcpsGpaValue ''A'' weighted = Some (Fin (if weighted then 5 else 4)) \<and>
   mcpsGpaValue ''B'' weighted = Some (Fin (if weighted then 4 else 3)) \<and>
   mcpsGpaValue ''C'' weighted = Some (Fin (if weighted then 3 else 2)) \<and>
   mcpsGpaValue ''D'' weighted = Some (Fin 1) \<and>
   mcpsGpaValue ''E'' weighted = Some (Fin 0) \<and>
   (courseMark mcps pf gradingPeriod course gb = Inr (mark, gb')
      \<and> mcpsGpaValue mark (isMcpsCourseWeighted (Name course)) = Some w
      \<and> mcpsGpaValue mark False = Some u
    \<longrightarrow> gpaCourse mcps pf gradingPeriod course (gb, totalWeighted, totalUnweighted, counted)
          = Inr (gb', jadd totalWeighted w, jadd totalUnweighted u, jadd counted (Fin 1))) \<and>
   isMcpsCourseWeighted ''AP Calculus'' \<and> \<not> isMcpsCourseWeighted ''Biology'' \<and>
   map_sum id fst (calculateMcpsGpa True exampleParse exampleGradebook ''Q3'') = Inr (Fin 4, Fin 3) \<and>
   map_sum id fst (calculateMcpsGpa True pf exampleGradebook ''Q4'') = Inr (Fin 3, Fin 3)"
proof -
  have points: "mcpsGpaValue ''A'' weighted = Some (Fin (if weighted then 5 else 4))"
    "mcpsGpaValue ''B'' weighted = Some (Fin (if weighted then 4 else 3))"
    "mcpsGpaValue ''C'' weighted = Some (Fin (if weighted then 3 else 2))"
    "mcpsGpaValue ''D'' weighted = Some (Fin 1)"
    "mcpsGpaValue ''E'' weighted = Some (Fin 0)"
    by (simp_all add: mcpsGpaValue_def)
  have step: "gpaCourse mcps pf gradingPeriod course (gb, totalWeighted, totalUnweighted, counted)
      = Inr (gb', jadd totalWeighted w, jadd totalUnweighted u, jadd counted (Fin 1))"
    if "courseMark mcps pf gradingPeriod course gb = Inr (mark, gb')"
      and "mcpsGpaValue mark (isMcpsCourseWeighted (Name course)) = Some w"
      and "mcpsGpaValue mark False = Some u"
    using that by (simp add: gpaCourse_def)
  have names: "isMcpsCourseWeighted ''AP Calculus''" "\<not> isMcpsCourseWeighted ''Biology''"
    by (simp_all add: isMcpsCourseWeighted_def)
  have q3: "map_sum id fst (calculateMcpsGpa True exampleParse exampleGradebook ''Q3'') = Inr (Fin 4, Fin 3)"
    by (simp add: calculateMcpsGpa_def gpaCourse_def courseMark_def exampleGradebook_def
        examplePolicy_def gradedAssignment_def exampleParse_def mcpsGpaValue_def names
        calculateMark_def isNaN_def calculateWeightedPointRatio_def maxAssignmentPoints_def
        totalAssignmentPoints_def totalAssignmentPointsBy_def computeWeight_def
        adjustmentOf_def truthy_def)
  have q4: "map_sum id fst (calculateMcpsGpa True pf exampleGradebook ''Q4'') = Inr (Fin 3, Fin 3)"
    by (simp add: calculateMcpsGpa_def gpaCourse_def courseMark_def exampleGradebook_def
        hasDigit_def mcpsGpaValue_def names)
  from points step names q3 q4 show ?thesis by blast
qed

theorem mcpsGpaValue_points_witness:
  "courseMark True exampleParse ''Q3''
       \<lparr>ID = 21, Name = ''AP Calculus'', markPreview = ''B''\<rparr> exampleGradebook
     = Inr (''B'', exampleGradebook) \<and>
   mcpsGpaValue ''B'' (isMcpsCourseWeighted ''AP Calculus'') = Some (Fin 4) \<and>
   mcpsGpaValue ''B'' False = Some (Fin 3) \<and>
   gpaCourse True exampleParse ''Q3'' \<lparr>ID = 21, Name = ''AP Calculus'', markPreview = ''B''\<rparr>
       (exampleGradebook, Fin 0, Fin 0, Fin 0)
     = Inr (exampleGradebook, Fin 4, Fin 3, Fin 1)"
  using mcpsGpaValue_points [where mcps = True and pf = exampleParse and gradingPeriod = "''Q3''"
      and course = "\<lparr>ID = 21, Name = ''AP Calculus'', markPreview = ''B''\<rparr>"
      and gb = exampleGradebook and gb' = exampleGradebook and mark = "''B''"
      and w = "Fin 4" and u = "Fin 3" and weighted = True
      and totalWeighted = "Fin 0" and totalUnweighted = "Fin 0" and counted = "Fin 0"]
  by (simp add: courseMark_def gpaCourse_def exampleGradebook_def hasDigit_def
      mcpsGpaValue_def isMcpsCourseWeighted_def)

text \<open>
  C2, as stated, fails for the two lowest marks: in a weighted course a D is worth 1, not
  2, and an E is worth 0, not 1.
\<close>

theorem mcpsGpaValue_low_marks_counterexample:
  "mcpsGpaValue ''D'' True = Some (Fin 1) \<and>
   mcpsGpaValue ''D'' True \<noteq> Some (jadd (Fin 1) (Fin 1)) \<and>
   mcpsGpaValue ''E'' True = Some (Fin 0) \<and>
   mcpsGpaValue ''E'' True \<noteq> Some (jadd (Fin 0) (Fin 1))"
  by (simp add: mcpsGpaValue_def)

subsection \<open>The policy across calls\<close>

text \<open>
  The district branch of \<open>calculateMark\<close> and its \<open>N/A\<close> exits return before the sort
  and leave the gradebook as it is.
\<close>

lemma calculateMark_frame:
  "mcps \<or> isNaN ratio
     \<or> find (\<lambda>type. stId type = scoreType) (reportCardScoreTypes (policy gb)) = None
   \<Longrightarrow> snd (calculateMark mcps gb scoreType ratio) = gb"
  by (auto simp: calculateMark_def split: option.splits)

text \<open>
  C3 does not hold of the code: the generic branch of \<open>calculateMark\<close> sorts the
  boundary list of the score-type in place. With the boundaries of score-type 7 listed
  in ascending order, a call of \<open>calculateMark\<close> leaves them in descending order in the
  policy, and \<open>calculateScoreStyle\<close>, which walks the boundaries in the order the policy
  holds them, answers \<open>scale-5\<close> before the call and \<open>scale-3\<close> after it on the same
  input. The other computation functions return no gradebook: they read the policy only.
\<close>

theorem calculateMark_reorders_details:
  "reportCardScoreTypes (policy ascendingGradebook)
     = [\<lparr>stId = 7, stMax = Fin 100, details = rev exampleBoundaries\<rparr>] \<and>
   calculateMark False ascendingGradebook 7 (Fin (85 / 100))
     = (''B'', ascendingGradebook\<lparr>policy := (policy ascendingGradebook)\<lparr>reportCardScoreTypes :=
          [\<lparr>stId = 7, stMax = Fin 100, details = exampleBoundaries\<rparr>]\<rparr>\<rparr>) \<and>
   policy (snd (calculateMark False ascendingGradebook 7 (Fin (85 / 100))))
     \<noteq> policy ascendingGradebook \<and>
   calculateScoreStyle False ascendingGradebook 7 (Fin (75 / 100)) = Inr ''scale-5'' \<and>
   calculateScoreStyle False (snd (calculateMark False ascendingGradebook 7 (Fin (85 / 100)))) 7
       (Fin (75 / 100)) = Inr ''scale-3''"
  by (simp add: calculateMark_def calculateScoreStyle_def ascendingGradebook_def
      exampleGradebook_def examplePolicy_def exampleBoundaries_def isNaN_def sortDetails_def
      jsub_def jle_def numberToString_def digitChar_def)

end
